theory Spec2Isabelle
  imports Complex_Main "HOL-Library.AList"
begin

section \<open>Strings and paths\<close>

text \<open>
  Python strings are modelled as \<open>string\<close>. \<open>str.lower\<close> is modelled on the ASCII
  letters, which is all that decides a comparison with \<open>'mp4'\<close>, \<open>'bmp'\<close>,
  \<open>'jpg'\<close>, \<open>'jpeg'\<close> or \<open>'png'\<close>.
\<close>

definition lower_char :: "char \<Rightarrow> char" where
  "lower_char c =
     (case map_of (zip ''ABCDEFGHIJKLMNOPQRSTUVWXYZ'' ''abcdefghijklmnopqrstuvwxyz'') c of
        None \<Rightarrow> c
      | Some l \<Rightarrow> l)"

definition lower :: "string \<Rightarrow> string" where
  "lower s = map lower_char s"

text \<open>\<open>str.rfind\<close> for a single character: the highest index, or \<open>-1\<close>.\<close>

fun rfind_from :: "string \<Rightarrow> char \<Rightarrow> int \<Rightarrow> int \<Rightarrow> int" where
  "rfind_from [] c i found = found"
| "rfind_from (x # xs) c i found = rfind_from xs c (i + 1) (if x = c then i else found)"

definition rfind :: "string \<Rightarrow> char \<Rightarrow> int" where
  "rfind p c = rfind_from p c 0 (- 1)"

text \<open>
  \<open>os.path.splitext\<close> (\<open>genericpath._splitext\<close> with \<open>sep = '/'\<close>, no \<open>altsep\<close>,
  \<open>extsep = '.'\<close>). The loop skips the leading dots of the last path component;
  every index it uses is non-negative.
\<close>

function splitext_loop :: "string \<Rightarrow> int \<Rightarrow> int \<Rightarrow> string \<times> string" where
  "splitext_loop p dotIndex filenameIndex =
     (if filenameIndex < dotIndex then
        (if take 1 (drop (nat filenameIndex) p) \<noteq> ''.''
         then (take (nat dotIndex) p, drop (nat dotIndex) p)
         else splitext_loop p dotIndex (filenameIndex + 1))
      else (p, []))"
  by pat_completeness auto
termination
  by (relation "measure (\<lambda>(p, dotIndex, filenameIndex). nat (dotIndex - filenameIndex))") auto

declare splitext_loop.simps [simp del]

definition splitext :: "string \<Rightarrow> string \<times> string" where
  "splitext p =
     (let sepIndex = rfind p (CHR ''/'');
          dotIndex = rfind p (CHR ''.'')
      in if dotIndex > sepIndex then splitext_loop p dotIndex (sepIndex + 1) else (p, []))"

definition extension :: "string \<Rightarrow> string" where
  "extension filepath = lower (drop 1 (snd (splitext filepath)))"

text \<open>\<open>os.path.join\<close> of two components (\<open>posixpath.join\<close>).\<close>

definition path_join :: "string \<Rightarrow> string \<Rightarrow> string" where
  "path_join a b =
     (if take 1 b = ''/'' then b
      else if a = [] \<or> last a = CHR ''/'' then a @ b
      else a @ ''/'' @ b)"

section \<open>Environment: exceptions, file system, random source, surfaces\<close>

datatype exn =
    FileNotFoundError string
  | NotADirectoryError string
  | KeyError string
  | AttributeError string
  | TypeError string
  | RenderError string
  | DecoderError string

text \<open>
  A path names nothing, a regular file, or a directory with its entries in the order
  \<open>os.listdir\<close> yields them.
\<close>

datatype node = File | Dir "string list"

type_synonym filesystem = "string \<Rightarrow> node option"

definition isdir :: "filesystem \<Rightarrow> string \<Rightarrow> bool" where
  "isdir fs p = (case fs p of Some (Dir _) \<Rightarrow> True | _ \<Rightarrow> False)"

definition listdir :: "filesystem \<Rightarrow> string \<Rightarrow> exn + string list" where
  "listdir fs p =
     (case fs p of
        None \<Rightarrow> Inl (FileNotFoundError p)
      | Some File \<Rightarrow> Inl (NotADirectoryError p)
      | Some (Dir names) \<Rightarrow> Inr names)"

text \<open>\<open>OPTIONS.DATADIR\<close>, the module constant \<open>USERDATA\<close> and \<open>OPTIONS.MUSICDIR\<close>.\<close>

record options =
  DATADIR :: string
  USERDATA :: string
  MUSICDIR :: string

type_synonym color = "nat \<times> nat \<times> nat \<times> nat"

definition BG_COLOR :: color where
  "BG_COLOR = (0, 0, 0, 255)"

record picture =
  pic_size :: "int \<times> int"
  pic_id :: nat

datatype draw_op = Fill color | Blit picture "int \<times> int"

text \<open>A surface is its size and the drawing calls made on it, oldest first.\<close>

record surface =
  get_size :: "int \<times> int"
  drawn :: "draw_op list"

definition fill :: "color \<Rightarrow> surface \<Rightarrow> surface" where
  "fill c dest = dest\<lparr>drawn := drawn dest @ [Fill c]\<rparr>"

definition blit :: "picture \<Rightarrow> int \<times> int \<Rightarrow> surface \<Rightarrow> surface" where
  "blit src pos dest = dest\<lparr>drawn := drawn dest @ [Blit src pos]\<rparr>"

definition centerblit :: "picture \<Rightarrow> surface \<Rightarrow> surface" where
  "centerblit src dest =
     (let (w, h) = get_size dest;
          (x, y) = pic_size src
      in blit src ((w div 2) - (x div 2), (h div 2) - (y div 2)) dest)"

text \<open>
  The pygame calls that build pictures belong to the platform: \<open>pygame.image.load\<close>,
  \<open>pygame.image.frombuffer\<close> on the bytes, size and pixel format of a decoded frame,
  and the scaling done by \<open>resize\<close>. Each gives the picture or the exception raised.
  So do the addition of two Python floats, \<open>float_add\<close>, which rounds and is left
  uninterpreted (clock readings and delays are the real numbers the floats stand for,
  and comparing two floats is exact), and \<open>MediaPlayer.close_player\<close>, which returns
  or raises for the decoder with the given handle.
\<close>

type_synonym frame = nat

record platform =
  image_load :: "string \<Rightarrow> exn + picture"
  frombuffer :: "frame \<Rightarrow> exn + picture"
  resize :: "picture \<Rightarrow> int \<times> int \<Rightarrow> exn + picture"
  float_add :: "real \<Rightarrow> real \<Rightarrow> real"
  close_player :: "nat \<Rightarrow> exn option"

definition load_image :: "platform \<Rightarrow> string \<Rightarrow> int \<times> int \<Rightarrow> exn + picture" where
  "load_image pf path size' =
     (case image_load pf path of Inl e \<Rightarrow> Inl e | Inr img \<Rightarrow> resize pf img size')"

datatype level = DEBUG | INFO | ERROR

datatype message = MusicFound nat | Playing string | Raised exn

text \<open>
  Everything the functions mutate outside a \<open>VideoPlayer\<close>: the two module globals,
  the values the random generator will yield, the screen surface, the log, the decoders
  opened (a handle is the index of its path) and closed, and the number of display
  updates.
\<close>

record world =
  current_background :: "string option"
  last_music :: "string option"
  rng :: "nat list"
  screen :: surface
  logged :: "(level \<times> message) list"
  opened :: "string list"
  closed_players :: "nat list"
  updates :: nat

definition log_to :: "level \<Rightarrow> message \<Rightarrow> world \<Rightarrow> world" where
  "log_to l m w = w\<lparr>logged := logged w @ [(l, m)]\<rparr>"

text \<open>
  \<open>random.choice(seq)\<close> is \<open>seq[randbelow(len(seq))]\<close>; a value \<open>r\<close> of the generator
  stands for the index \<open>r mod len(seq)\<close>. Both selectors call it only on a sequence of
  two or more elements.
\<close>

definition choice :: "'a list \<Rightarrow> nat \<Rightarrow> 'a" where
  "choice seq r = seq ! (r mod length seq)"

text \<open>
  The loop \<open>while True: x = random.choice(seq); if x != last: break\<close>. It ends at the
  first value of the generator that picks something else than \<open>last\<close>; \<open>None\<close> is a
  loop that has not ended on the values given.
\<close>

fun choose_other :: "string list \<Rightarrow> string option \<Rightarrow> nat list \<Rightarrow> (string \<times> nat list) option" where
  "choose_other seq last_one [] = None"
| "choose_other seq last_one (r # rs) =
     (let x = choice seq r
      in if Some x \<noteq> last_one then Some (x, rs) else choose_other seq last_one rs)"

section \<open>Music Selector\<close>

definition is_music :: "string \<Rightarrow> bool" where
  "is_music f = (extension f = ''mp4'')"

text \<open>
  The dict comprehension over one directory, then \<open>dict.update\<close>: insertion order is
  kept, a key seen again keeps its place and takes the new value.
\<close>

text \<open>
  \<open>os.listdir(mdir) if os.path.isdir(mdir) else []\<close>. Listing a directory does not
  fail in this file system, so the \<open>Inl\<close> case is never taken.
\<close>

definition entries :: "filesystem \<Rightarrow> string \<Rightarrow> string list" where
  "entries fs mdir =
     (if isdir fs mdir then (case listdir fs mdir of Inr names \<Rightarrow> names | Inl _ \<Rightarrow> []) else [])"

definition music_in :: "filesystem \<Rightarrow> string \<Rightarrow> (string \<times> string) list" where
  "music_in fs mdir =
     fold (\<lambda>f d. AList.update f (path_join mdir f) d) (filter is_music (entries fs mdir)) []"

definition dict_update :: "(string \<times> string) list \<Rightarrow> (string \<times> string) list \<Rightarrow> (string \<times> string) list" where
  "dict_update music d = fold (\<lambda>(k, v) m. AList.update k v m) d music"

definition music_dirs :: "options \<Rightarrow> string list" where
  "music_dirs opts =
     [path_join (DATADIR opts) ''music'', path_join (USERDATA opts) ''music'', MUSICDIR opts]"

definition music_catalog :: "options \<Rightarrow> filesystem \<Rightarrow> (string \<times> string) list" where
  "music_catalog opts fs = fold (\<lambda>mdir music. dict_update music (music_in fs mdir)) (music_dirs opts) []"

definition random_music :: "options \<Rightarrow> filesystem \<Rightarrow> world \<Rightarrow> ((exn + string) \<times> world) option" where
  "random_music opts fs w =
     (let music = music_catalog opts fs;
          w1 = log_to DEBUG (MusicFound (length music)) w
      in if music = [] then Some (Inl (FileNotFoundError ''No music found!''), w1)
         else
           (case (if length music = 1 then Some (map fst music ! 0, rng w1)
                  else choose_other (map fst music) (last_music w1) (rng w1)) of
              None \<Rightarrow> None
            | Some (video, rs) \<Rightarrow>
                (case map_of music video of
                   None \<Rightarrow> Some (Inl (KeyError video), w1\<lparr>rng := rs\<rparr>)
                 | Some full \<Rightarrow> Some (Inr full, w1\<lparr>rng := rs, last_music := Some full\<rparr>))))"

section \<open>Background Selector\<close>

definition is_background :: "string \<Rightarrow> bool" where
  "is_background f = (extension f \<in> set [''bmp'', ''jpg'', ''jpeg'', ''png''])"

definition bgdir :: "options \<Rightarrow> string" where
  "bgdir opts = path_join (DATADIR opts) ''backgrounds''"

definition backgrounds :: "options \<Rightarrow> filesystem \<Rightarrow> exn + string list" where
  "backgrounds opts fs =
     (case listdir fs (bgdir opts) of
        Inl e \<Rightarrow> Inl e
      | Inr names \<Rightarrow> Inr (map (path_join (bgdir opts)) (filter is_background names)))"

text \<open>
  The surface drawn on is the screen, the only surface \<open>main\<close> creates. The result is
  the exception that left the function, if any, and the world as the call left it.
\<close>

definition random_background ::
  "options \<Rightarrow> filesystem \<Rightarrow> platform \<Rightarrow> world \<Rightarrow> (exn option \<times> world) option" where
  "random_background opts fs pf w =
     (case backgrounds opts fs of
        Inl e \<Rightarrow> Some (Some e, w)
      | Inr bgs \<Rightarrow>
          if bgs = [] then Some (None, w)
          else
            (case (if length bgs = 1 then Some (bgs ! 0, rng w)
                   else choose_other bgs (current_background w) (rng w)) of
               None \<Rightarrow> None
             | Some (bg, rs) \<Rightarrow>
                 (let w1 = w\<lparr>rng := rs, screen := fill BG_COLOR (screen w)\<rparr>
                  in case load_image pf bg (get_size (screen w1)) of
                       Inl e \<Rightarrow> Some (Some e, w1)
                     | Inr img \<Rightarrow>
                         Some (None, w1\<lparr>screen := centerblit img (screen w1),
                                          current_background := Some bg\<rparr>))))"

section \<open>VideoPlayer\<close>

text \<open>
  What a call of \<open>MediaPlayer.get_frame\<close> does, as far as \<open>play\<close> tells the cases
  apart:
  \<^item> \<open>EOF\<close>: it returns \<open>(frame, 'eof')\<close>;
  \<^item> \<open>NoFrame\<close>: it returns \<open>(None, val)\<close> with \<open>val\<close> not \<open>'eof'\<close>;
  \<^item> \<open>Frame image val\<close>: it returns \<open>((image, pts), val)\<close> with \<open>val\<close> a float;
  \<^item> \<open>FrameNoDelay image\<close>: it returns \<open>((image, pts), val)\<close> with \<open>val\<close> not a
    number and not \<open>'eof'\<close> (such as \<open>'paused'\<close>), so that \<open>val > 0\<close> raises;
  \<^item> \<open>Fails e\<close>: it raises \<open>e\<close>, or what it returns does not unpack into \<open>frame, val\<close>
    or its frame cannot be indexed, which raises \<open>e\<close> before \<open>self.image\<close> is set.
\<close>

datatype get_frame_result = EOF | NoFrame | Frame frame real | FrameNoDelay frame | Fails exn

datatype surface_ref = Screen

text \<open>
  How a call of \<open>play\<close> ends: it returns \<open>None\<close> (falsy), it returns \<open>True\<close>, or an
  exception leaves it.
\<close>

datatype retval = RetNone | RetTrue | Uncaught exn

definition truthy :: "retval \<Rightarrow> bool" where
  "truthy r = (r = RetTrue)"

record VideoPlayer =
  player :: "nat option"
  surface :: "surface_ref option"
  image' :: "frame option"
  wait :: real
  finished :: bool

definition new_VideoPlayer :: "string \<Rightarrow> world \<Rightarrow> VideoPlayer \<times> world" where
  "new_VideoPlayer path w =
     (\<lparr>player = Some (length (opened w)), surface = Some Screen, image' = None, wait = 0,
       finished = False\<rparr>,
      w\<lparr>opened := opened w @ [path]\<rparr>)"

definition has_finished :: "VideoPlayer \<Rightarrow> bool" where
  "has_finished self = finished self"

definition stop :: "VideoPlayer \<Rightarrow> world \<Rightarrow> VideoPlayer \<times> world" where
  "stop self w =
     (self\<lparr>player := None, surface := None, image' := None, wait := 0, finished := True\<rparr>,
      (case player self of
         Some h \<Rightarrow> w\<lparr>closed_players := closed_players w @ [h]\<rparr>
       | None \<Rightarrow> w))"

text \<open>
  \<open>stop\<close> above is the method when \<open>close_player\<close> returns. A call of it with a
  decoder whose \<open>close_player\<close> raises is left by that exception before anything is
  assigned.
\<close>

definition stop_call :: "platform \<Rightarrow> VideoPlayer \<Rightarrow> world \<Rightarrow> exn option \<times> VideoPlayer \<times> world" where
  "stop_call pf self w =
     (case player self of
        None \<Rightarrow> (None, stop self w)
      | Some h \<Rightarrow>
          (case close_player pf h of
             Some e \<Rightarrow> (Some e, self, w)
           | None \<Rightarrow> (None, stop self w)))"

text \<open>The body of the \<open>try\<close>: the world after the blit, or the exception raised.\<close>

definition display :: "platform \<Rightarrow> VideoPlayer \<Rightarrow> world \<Rightarrow> exn + world" where
  "display pf self w =
     (case image' self of
        None \<Rightarrow> Inl (AttributeError ''to_bytearray'')
      | Some fr \<Rightarrow>
          (case frombuffer pf fr of
             Inl e \<Rightarrow> Inl e
           | Inr img \<Rightarrow>
               (case surface self of
                  None \<Rightarrow> Inl (AttributeError ''get_size'')
                | Some Screen \<Rightarrow>
                    (case resize pf img (get_size (screen w)) of
                       Inl e \<Rightarrow> Inl e
                     | Inr scaled \<Rightarrow> Inr (w\<lparr>screen := centerblit scaled (screen w)\<rparr>)))))"

text \<open>\<open>play\<close> from the comment \<open>Display it\<close> on: the \<open>try\<close>, its handler, and the success path.\<close>

definition display_it :: "platform \<Rightarrow> VideoPlayer \<Rightarrow> world \<Rightarrow> retval \<times> VideoPlayer \<times> world" where
  "display_it pf self w =
     (case display pf self w of
        Inl e \<Rightarrow>
          (case stop_call pf self (log_to ERROR (Raised e) w) of
             (Some e', self', w') \<Rightarrow> (Uncaught e', self', w')
           | (None, self', w') \<Rightarrow> (RetNone, self', w'))
      | Inr w' \<Rightarrow> (RetTrue, self\<lparr>image' := None\<rparr>, w'))"

text \<open>
  One call of \<open>play\<close>. \<open>now\<close> is what \<open>time.time()\<close> returns in this call (it is read
  at most once) and \<open>got\<close> what \<open>get_frame\<close> does if it is called. The call of
  \<open>get_frame\<close>, the unpacking of its result, \<open>frame[0]\<close>, \<open>val > 0\<close> and the calls of
  \<open>stop\<close> stand outside the \<open>try\<close>: what they raise leaves \<open>play\<close>.
\<close>

definition play ::
  "platform \<Rightarrow> real \<Rightarrow> get_frame_result \<Rightarrow> VideoPlayer \<Rightarrow> world \<Rightarrow> retval \<times> VideoPlayer \<times> world" where
  "play pf now got self w =
     (if player self = None then (RetNone, self, w)
      else
        (case image' self of
           Some _ \<Rightarrow> if now < wait self then (RetNone, self, w) else display_it pf self w
         | None \<Rightarrow>
             (case got of
                Fails e \<Rightarrow> (Uncaught e, self, w)
              | EOF \<Rightarrow>
                  (case stop_call pf self w of
                     (Some e, self', w') \<Rightarrow> (Uncaught e, self', w')
                   | (None, self', w') \<Rightarrow> (RetNone, self', w'))
              | NoFrame \<Rightarrow> (RetNone, self, w)
              | FrameNoDelay fr \<Rightarrow>
                  (Uncaught (TypeError ''> not supported''), self\<lparr>image' := Some fr\<rparr>, w)
              | Frame fr val \<Rightarrow>
                  (let self1 = self\<lparr>image' := Some fr\<rparr>
                   in if val > 0 then (RetNone, self1\<lparr>wait := float_add pf now val\<rparr>, w)
                      else display_it pf self1 w))))"

text \<open>
  Successive calls of \<open>play\<close>, one per tick, each with its clock reading and decoder
  answer, by a caller that goes on calling whatever the call before did.
\<close>

fun play_ticks ::
  "platform \<Rightarrow> (real \<times> get_frame_result) list \<Rightarrow> VideoPlayer \<Rightarrow> world \<Rightarrow> retval list \<times> VideoPlayer \<times> world" where
  "play_ticks pf [] self w = ([], self, w)"
| "play_ticks pf ((now, got) # ticks) self w =
     (let (r, self1, w1) = play pf now got self w;
          (rs, self2, w2) = play_ticks pf ticks self1 w1
      in (r # rs, self2, w2))"

section \<open>Main loop\<close>

datatype button = BUTTON_LEFT | BUTTON_RIGHT | BUTTON_OTHER

datatype key = K_ESCAPE | K_SPACE | K_RETURN | K_OTHER

datatype event = QUIT | MOUSEBUTTONUP button | KEYUP key | OTHER_EVENT

text \<open>The locals \<open>done\<close>, \<open>dirty\<close> and \<open>player\<close> of \<open>main\<close>.\<close>

record loop_state =
  loop_done :: bool
  loop_dirty :: bool
  loop_player :: "VideoPlayer option"

text \<open>
  The body of \<open>for event in pygame.event.get()\<close> for one event. The result is the
  exception that leaves \<open>main\<close>, if any; \<open>None\<close> is a selector loop that has not ended.
\<close>

definition handle_event ::
  "options \<Rightarrow> filesystem \<Rightarrow> platform \<Rightarrow> event \<Rightarrow> loop_state \<Rightarrow> world \<Rightarrow> (exn option \<times> loop_state \<times> world) option" where
  "handle_event opts fs pf ev st w =
     (if ev = QUIT \<or> ev = MOUSEBUTTONUP BUTTON_RIGHT \<or> ev = KEYUP K_ESCAPE
      then Some (None, st\<lparr>loop_done := True\<rparr>, w)
      else if ev = MOUSEBUTTONUP BUTTON_LEFT \<or> ev = KEYUP K_SPACE
      then (case random_background opts fs pf w of
              None \<Rightarrow> None
            | Some (Some e, w') \<Rightarrow> Some (Some e, st, w')
            | Some (None, w') \<Rightarrow> Some (None, st\<lparr>loop_dirty := True\<rparr>, w'))
      else if ev = KEYUP K_RETURN
      then (case loop_player st of
              Some p \<Rightarrow>
                (let (raised, p', w') = stop_call pf p w
                 in Some (raised, st\<lparr>loop_player := Some p'\<rparr>, w'))
            | None \<Rightarrow>
                (case random_music opts fs w of
                   None \<Rightarrow> None
                 | Some (Inl (FileNotFoundError m), w') \<Rightarrow>
                     Some (None, st, log_to ERROR (Raised (FileNotFoundError m)) w')
                 | Some (Inl e, w') \<Rightarrow> Some (Some e, st, w')
                 | Some (Inr video, w') \<Rightarrow>
                     (let (p, w'') = new_VideoPlayer video w'
                      in Some (None, st\<lparr>loop_player := Some p\<rparr>, log_to INFO (Playing video) w''))))
      else Some (None, st, w))"

fun handle_events ::
  "options \<Rightarrow> filesystem \<Rightarrow> platform \<Rightarrow> event list \<Rightarrow> loop_state \<Rightarrow> world \<Rightarrow> (exn option \<times> loop_state \<times> world) option" where
  "handle_events opts fs pf [] st w = Some (None, st, w)"
| "handle_events opts fs pf (ev # evs) st w =
     (case handle_event opts fs pf ev st w of
        None \<Rightarrow> None
      | Some (Some e, st', w') \<Rightarrow> Some (Some e, st', w')
      | Some (None, st', w') \<Rightarrow> handle_events opts fs pf evs st' w')"

text \<open>One pass of \<open>while not done\<close>: the events polled, then the player, then the display update.\<close>

definition main_pass ::
  "options \<Rightarrow> filesystem \<Rightarrow> platform \<Rightarrow> event list \<Rightarrow> real \<Rightarrow> get_frame_result \<Rightarrow> loop_state \<Rightarrow> world \<Rightarrow> (exn option \<times> loop_state \<times> world) option" where
  "main_pass opts fs pf events now got st w =
     (case handle_events opts fs pf events st w of
        None \<Rightarrow> None
      | Some (Some e, st1, w1) \<Rightarrow> Some (Some e, st1, w1)
      | Some (None, st1, w1) \<Rightarrow>
          (case (case loop_player st1 of
                   None \<Rightarrow> Some (None, st1, w1)
                 | Some p \<Rightarrow>
                     if finished p
                     then (case random_background opts fs pf w1 of
                             None \<Rightarrow> None
                           | Some (Some e, w2) \<Rightarrow> Some (Some e, st1\<lparr>loop_player := None\<rparr>, w2)
                           | Some (None, w2) \<Rightarrow>
                               Some (None, st1\<lparr>loop_player := None, loop_dirty := True\<rparr>, w2))
                     else (let (r, p', w2) = play pf now got p w1
                           in case r of
                                Uncaught e \<Rightarrow> Some (Some e, st1\<lparr>loop_player := Some p'\<rparr>, w2)
                              | _ \<Rightarrow>
                                  Some (None, st1\<lparr>loop_player := Some p', loop_dirty := truthy r\<rparr>,
                                        w2))) of
             None \<Rightarrow> None
           | Some (Some e, st2, w2) \<Rightarrow> Some (Some e, st2, w2)
           | Some (None, st2, w2) \<Rightarrow>
               Some (None, st2\<lparr>loop_dirty := False\<rparr>,
                     if loop_dirty st2 then w2\<lparr>updates := updates w2 + 1\<rparr> else w2)))"

section \<open>The specification's wording of a recognized video\<close>

text \<open>\<open>str.endswith\<close>.\<close>

definition endswith :: "string \<Rightarrow> string \<Rightarrow> bool" where
  "endswith s suffix = (length suffix \<le> length s \<and> drop (length s - length suffix) s = suffix)"

text \<open>
  This definition follows the specification's words, not the source: a file name is a
  recognized video when it ends with \<open>.mp4\<close>, matched without regard to case, as a
  suffix. It is compared with \<open>is_music\<close>, which is what the source computes.
\<close>

definition spec_recognized_video :: "string \<Rightarrow> bool" where
  "spec_recognized_video f = endswith (lower f) ''.mp4''"

section \<open>Example inputs\<close>

definition ex_opts :: options where
  "ex_opts = \<lparr>DATADIR = ''/d'', USERDATA = ''/u'', MUSICDIR = ''/m''\<rparr>"

definition ex_fs_two :: filesystem where
  "ex_fs_two =
     [''/d/music'' \<mapsto> Dir [''a.mp4'', ''b.mp4''], ''/d/backgrounds'' \<mapsto> Dir [''x.png'', ''y.jpg'']]"

definition ex_fs_one :: filesystem where
  "ex_fs_one = [''/d/music'' \<mapsto> Dir [''a.mp4''], ''/d/backgrounds'' \<mapsto> Dir [''x.png'']]"

definition ex_fs_no_images :: filesystem where
  "ex_fs_no_images = [''/d/backgrounds'' \<mapsto> Dir [''README'']]"

definition ex_fs_nothing :: filesystem where
  "ex_fs_nothing = Map.empty"

definition ex_world :: "nat list \<Rightarrow> world" where
  "ex_world rs =
     \<lparr>current_background = None, last_music = None, rng = rs,
      screen = \<lparr>get_size = (1600, 900), drawn = []\<rparr>, logged = [], opened = [],
      closed_players = [], updates = 0\<rparr>"

definition ex_pf :: platform where
  "ex_pf =
     \<lparr>image_load = (\<lambda>p. Inr \<lparr>pic_size = (800, 600), pic_id = 0\<rparr>),
      frombuffer = (\<lambda>fr. if fr = 0 then Inl (RenderError ''bad frame'')
                          else Inr \<lparr>pic_size = (640, 480), pic_id = fr\<rparr>),
      resize = (\<lambda>pic sz. Inr (pic\<lparr>pic_size := sz\<rparr>)),
      float_add = (\<lambda>a b. a + b),
      close_player = (\<lambda>h. None)\<rparr>"

text \<open>
  The sums taken with \<open>ex_pf\<close> below are exact in double precision. In
  \<open>ex_pf_rounding\<close> the sum of the clock reading 1762214400 and the delay \<open>2 ^ -30\<close>,
  less than half a unit in the last place of the reading, is the reading itself, as
  it is for doubles; and in \<open>ex_pf_closing_fails\<close> closing a decoder raises.
\<close>

definition ex_pf_rounding :: platform where
  "ex_pf_rounding =
     ex_pf\<lparr>float_add := (\<lambda>a b. if a = 1762214400 \<and> b = 1 / 2 ^ 30 then a else a + b)\<rparr>"

definition ex_pf_closing_fails :: platform where
  "ex_pf_closing_fails = ex_pf\<lparr>close_player := (\<lambda>h. Some (DecoderError ''close''))\<rparr>"

definition ex_idle :: loop_state where
  "ex_idle = \<lparr>loop_done = False, loop_dirty = False, loop_player = None\<rparr>"

definition ex_player :: VideoPlayer where
  "ex_player = \<lparr>player = Some 0, surface = Some Screen, image' = None, wait = 0, finished = False\<rparr>"

section \<open>VideoPlayer: stop\<close>






section \<open>VideoPlayer: play\<close>

lemma stop_call_returns:
  "player self = Some h \<Longrightarrow> close_player pf h = None \<Longrightarrow> stop_call pf self w = (None, stop self w)"
  by (simp add: stop_call_def)

lemma stop_call_raises:
  "player self = Some h \<Longrightarrow> close_player pf h = Some e \<Longrightarrow> stop_call pf self w = (Some e, self, w)"
  by (simp add: stop_call_def)

lemma stop_call_no_player: "player self = None \<Longrightarrow> stop_call pf self w = (None, stop self w)"
  by (simp add: stop_call_def)

lemma display_it_true:
  "fst (display_it pf self w) = RetTrue \<Longrightarrow>
   \<exists>w'. display pf self w = Inr w' \<and> display_it pf self w = (RetTrue, self\<lparr>image' := None\<rparr>, w')"
  by (auto simp: display_it_def stop_call_def stop_def split: sum.splits prod.splits option.splits)

lemma display_Inr:
  "display pf self w = Inr w' \<Longrightarrow>
   \<exists>pic x y. w' = w\<lparr>screen := blit pic (x, y) (screen w)\<rparr>"
  by (auto simp: display_def centerblit_def Let_def split: option.splits sum.splits surface_ref.splits prod.splits)

lemma display_it_Inr:
  "display pf self w = Inr w' \<Longrightarrow> display_it pf self w = (RetTrue, self\<lparr>image' := None\<rparr>, w')"
  by (simp add: display_it_def)

lemma display_it_Inl:
  "display pf self w = Inl e \<Longrightarrow> player self = Some h \<Longrightarrow> close_player pf h = None \<Longrightarrow>
   display_it pf self w =
     (RetNone, fst (stop self w),
      (snd (stop self w))\<lparr>logged := logged w @ [(ERROR, Raised e)]\<rparr>)"
  by (simp add: display_it_def stop_call_def stop_def log_to_def)

lemma display_it_Inl_close_raises:
  "display pf self w = Inl e \<Longrightarrow> player self = Some h \<Longrightarrow> close_player pf h = Some e' \<Longrightarrow>
   display_it pf self w = (Uncaught e', self, w\<lparr>logged := logged w @ [(ERROR, Raised e)]\<rparr>)"
  by (simp add: display_it_def stop_call_def log_to_def)

lemma play_stored_early:
  "player self \<noteq> None \<Longrightarrow> image' self = Some f \<Longrightarrow> now < wait self \<Longrightarrow>
   play pf now got self w = (RetNone, self, w)"
  by (auto simp: play_def)

lemma play_stored_due:
  "player self \<noteq> None \<Longrightarrow> image' self = Some f \<Longrightarrow> \<not> now < wait self \<Longrightarrow>
   play pf now got self w = display_it pf self w"
  by (auto simp: play_def)

lemma play_fetch_later:
  "player self \<noteq> None \<Longrightarrow> image' self = None \<Longrightarrow> 0 < d \<Longrightarrow>
   play pf now (Frame f d) self w =
     (RetNone, self\<lparr>image' := Some f, wait := float_add pf now d\<rparr>, w)"
  by (auto simp: play_def)

lemma play_fetch_now:
  "player self \<noteq> None \<Longrightarrow> image' self = None \<Longrightarrow> d \<le> 0 \<Longrightarrow>
   play pf now (Frame f d) self w = display_it pf (self\<lparr>image' := Some f\<rparr>) w"
  by (auto simp: play_def)

lemma play_fails:
  "player self \<noteq> None \<Longrightarrow> image' self = None \<Longrightarrow>
   play pf now (Fails e) self w = (Uncaught e, self, w)"
  by (auto simp: play_def)

lemma play_ticks_early:
  "player self \<noteq> None \<Longrightarrow> image' self = Some f \<Longrightarrow> \<forall>t \<in> set (map fst ticks). t < wait self \<Longrightarrow>
   play_ticks pf ticks self w = (replicate (length ticks) RetNone, self, w)"
  by (induction ticks) (auto simp: play_stored_early)

lemma play_true_cases:
  assumes "fst (play pf now got self w) = RetTrue"
  shows "player self \<noteq> None \<and>
         ((\<exists>f. image' self = Some f \<and> wait self \<le> now \<and> play pf now got self w = display_it pf self w) \<or>
          (\<exists>f d. image' self = None \<and> got = Frame f d \<and> d \<le> 0 \<and>
                 play pf now got self w = display_it pf (self\<lparr>image' := Some f\<rparr>) w))"
  using assms
  by (auto simp: play_def Let_def stop_call_def stop_def
        split: if_splits option.splits get_frame_result.splits)

lemma play_RetTrue:
  assumes "fst (play pf now got self w) = RetTrue"
  shows "\<exists>pic x y. play pf now got self w =
           (RetTrue, self\<lparr>image' := None\<rparr>, w\<lparr>screen := blit pic (x, y) (screen w)\<rparr>)"
proof -
  from play_true_cases[OF assms] consider
    (stored) f where "image' self = Some f" "play pf now got self w = display_it pf self w"
  | (fetched) f d where "image' self = None" "got = Frame f d"
      "play pf now got self w = display_it pf (self\<lparr>image' := Some f\<rparr>) w"
    by blast
  then show ?thesis
  proof cases
    case stored
    with assms display_it_true[of pf self w] display_Inr[of pf self w] show ?thesis by auto
  next
    case fetched
    with assms display_it_true[of pf "self\<lparr>image' := Some f\<rparr>" w]
      display_Inr[of pf "self\<lparr>image' := Some f\<rparr>" w] show ?thesis by auto
  qed
qed

text \<open>
  Claim C1. The deadline is the sum of the clock reading and the delay as the program
  takes it, a float addition (\<open>float_add\<close>). For a session that still has its decoder:
  a frame returned with delay \<open>d > 0\<close> is stored with the deadline \<open>float_add now d\<close>
  and nothing is displayed in that call, nor in any run of later calls whose clock
  readings are all before the deadline (the session and the world stay as they are); a
  frame returned with \<open>d \<le> 0\<close> goes to the display code in the same call and, when
  the display succeeds, the call returns \<open>True\<close>. A call that returns \<open>True\<close> for a
  stored frame has a clock reading at or after the deadline, and one that returns
  \<open>True\<close> for a frame just fetched had \<open>d \<le> 0\<close>.
\<close>

theorem frame_not_shown_before_deadline:
  assumes "player self \<noteq> None"
  shows "(image' self = None \<and> 0 < d \<longrightarrow>
            play pf now (Frame f d) self w =
              (RetNone, self\<lparr>image' := Some f, wait := float_add pf now d\<rparr>, w)) \<and>
         (image' self = None \<and> 0 < d \<and> (\<forall>t \<in> set (map fst ticks). t < float_add pf now d) \<longrightarrow>
            play_ticks pf ((now, Frame f d) # ticks) self w =
              (replicate (Suc (length ticks)) RetNone,
               self\<lparr>image' := Some f, wait := float_add pf now d\<rparr>, w)) \<and>
         (image' self = Some f \<and> (\<forall>t \<in> set (map fst ticks). t < wait self) \<longrightarrow>
            play_ticks pf ticks self w = (replicate (length ticks) RetNone, self, w)) \<and>
         (image' self = None \<and> d \<le> 0 \<longrightarrow>
            play pf now (Frame f d) self w = display_it pf (self\<lparr>image' := Some f\<rparr>) w \<and>
            (\<forall>w'. display pf (self\<lparr>image' := Some f\<rparr>) w = Inr w' \<longrightarrow>
                  play pf now (Frame f d) self w = (RetTrue, self, w'))) \<and>
         (image' self = Some f \<and> fst (play pf now got self w) = RetTrue \<longrightarrow> wait self \<le> now) \<and>
         (image' self = None \<and> fst (play pf now (Frame f d) self w) = RetTrue \<longrightarrow> d \<le> 0)"
proof -
  let ?s = "self\<lparr>image' := Some f, wait := float_add pf now d\<rparr>"
  have a: "image' self = None \<and> 0 < d \<longrightarrow>
      play pf now (Frame f d) self w = (RetNone, ?s, w)"
    using assms by (simp add: play_fetch_later)
  have b: "image' self = None \<and> 0 < d \<and> (\<forall>t \<in> set (map fst ticks). t < float_add pf now d) \<longrightarrow>
      play_ticks pf ((now, Frame f d) # ticks) self w =
        (replicate (Suc (length ticks)) RetNone, ?s, w)"
  proof (intro impI, elim conjE)
    assume h: "image' self = None" "0 < d" "\<forall>t \<in> set (map fst ticks). t < float_add pf now d"
    have "play_ticks pf ticks ?s w = (replicate (length ticks) RetNone, ?s, w)"
      using assms h(3) by (intro play_ticks_early[where f = f]) auto
    then show "play_ticks pf ((now, Frame f d) # ticks) self w =
        (replicate (Suc (length ticks)) RetNone, ?s, w)"
      using assms h(1,2) by (simp add: play_fetch_later)
  qed
  have c: "image' self = Some f \<and> (\<forall>t \<in> set (map fst ticks). t < wait self) \<longrightarrow>
      play_ticks pf ticks self w = (replicate (length ticks) RetNone, self, w)"
    using assms play_ticks_early by blast
  have d: "image' self = None \<and> d \<le> 0 \<longrightarrow>
      play pf now (Frame f d) self w = display_it pf (self\<lparr>image' := Some f\<rparr>) w \<and>
      (\<forall>w'. display pf (self\<lparr>image' := Some f\<rparr>) w = Inr w' \<longrightarrow>
            play pf now (Frame f d) self w = (RetTrue, self, w'))"
    using assms by (auto simp: play_fetch_now display_it_Inr)
  have e: "image' self = Some f \<and> fst (play pf now got self w) = RetTrue \<longrightarrow> wait self \<le> now"
    using play_true_cases[of pf now got self w] by auto
  have g: "image' self = None \<and> fst (play pf now (Frame f d) self w) = RetTrue \<longrightarrow> d \<le> 0"
    using play_true_cases[of pf now "Frame f d" self w] by auto
  from a b c d e g show ?thesis by blast
qed

theorem frame_not_shown_before_deadline_witness:
  "play ex_pf 10 (Frame 7 (1/2)) ex_player (ex_world []) =
     (RetNone, ex_player\<lparr>image' := Some 7, wait := 21/2\<rparr>, ex_world []) \<and>
   play_ticks ex_pf [(10, Frame 7 (1/2)), (41/4, NoFrame), (52/5, EOF)] ex_player (ex_world []) =
     ([RetNone, RetNone, RetNone], ex_player\<lparr>image' := Some 7, wait := 21/2\<rparr>, ex_world []) \<and>
   play ex_pf 10 (Frame 7 0) ex_player (ex_world []) =
     (RetTrue, ex_player,
      (ex_world [])\<lparr>screen := \<lparr>get_size = (1600, 900),
            drawn = [Blit \<lparr>pic_size = (1600, 900), pic_id = 7\<rparr> (0, 0)]\<rparr>\<rparr>)"
  using frame_not_shown_before_deadline[of ex_player "1/2" ex_pf 10 7 "ex_world []" "[(41/4, NoFrame), (52/5, EOF)]"]
        frame_not_shown_before_deadline[of ex_player 0 ex_pf 10 7 "ex_world []"]
  by (simp add: ex_player_def play_def display_it_def display_def ex_pf_def ex_world_def
        centerblit_def blit_def)

text \<open>
  Where the float sum rounds to the clock reading itself, the deadline is that reading:
  the frame is held back in the call that fetched it and shown by the next call at the
  same reading.
\<close>

lemma ex_rounded_deadline_is_now:
  "play_ticks ex_pf_rounding [(1762214400, Frame 7 (1 / 2 ^ 30)), (1762214400, NoFrame)]
       ex_player (ex_world []) =
     ([RetNone, RetTrue], ex_player\<lparr>wait := 1762214400\<rparr>,
      (ex_world [])\<lparr>screen := \<lparr>get_size = (1600, 900),
            drawn = [Blit \<lparr>pic_size = (1600, 900), pic_id = 7\<rparr> (0, 0)]\<rparr>\<rparr>)"
  by (simp add: ex_player_def play_def display_it_def display_def ex_pf_rounding_def ex_pf_def
        ex_world_def centerblit_def blit_def)

text \<open>
  Claim C2, as stated, fails: an exception raised by \<open>get_frame\<close> is not caught. It
  leaves \<open>play\<close>, nothing is logged and the session is not finished.
\<close>

theorem decoder_exception_leaves_play:
  "fst (play ex_pf 6 (Fails (DecoderError ''read'')) ex_player (ex_world [])) =
     Uncaught (DecoderError ''read'') \<and>
   \<not> has_finished (fst (snd (play ex_pf 6 (Fails (DecoderError ''read'')) ex_player (ex_world [])))) \<and>
   logged (snd (snd (play ex_pf 6 (Fails (DecoderError ''read'')) ex_player (ex_world [])))) = []"
  by (simp add: play_def ex_player_def ex_world_def has_finished_def)

text \<open>
  Claim C2, amended. Whatever the session, the clock and the decoder do, a call of
  \<open>play\<close> that returns \<open>True\<close> has blitted one picture on the screen and logged
  nothing. A call logs nothing or exactly one error, that of the display code; then the
  screen is untouched and, when \<open>close_player\<close> returns, the call returns \<open>None\<close> and
  the session is finished with no decoder, surface or frame left and its decoder
  closed. An exception leaves \<open>play\<close> only when \<open>get_frame\<close> fails, when its delay is
  not a number, or when \<open>close_player\<close> raises; the session then keeps its decoder,
  surface and finished flag. In particular an exception of the display code, for a
  stored frame that is due or for a frame just fetched with \<open>d \<le> 0\<close>, is logged and
  ends in \<open>stop\<close>, and an exception of \<open>get_frame\<close> leaves the session and the world
  as they were.
\<close>

theorem play_catches_display_errors_only:
  "(case play pf now got self w of (r, s', w') \<Rightarrow>
      (r = RetTrue \<longrightarrow> (\<exists>pic x y. screen w' = blit pic (x, y) (screen w)) \<and> logged w' = logged w) \<and>
      (logged w' = logged w \<or>
       (\<exists>e h. logged w' = logged w @ [(ERROR, Raised e)] \<and> player self = Some h \<and>
              screen w' = screen w \<and>
              (r = RetNone \<and> close_player pf h = None \<and> has_finished s' \<and> player s' = None \<and>
               surface s' = None \<and> image' s' = None \<and>
               closed_players w' = closed_players w @ [h] \<or>
               (\<exists>e'. r = Uncaught e' \<and> close_player pf h = Some e')))) \<and>
      (\<forall>x. r = Uncaught x \<longrightarrow>
         player s' = player self \<and> surface s' = surface self \<and> finished s' = finished self \<and>
         screen w' = screen w \<and> closed_players w' = closed_players w \<and>
         (got = Fails x \<or> (\<exists>fr. got = FrameNoDelay fr) \<or>
          (\<exists>h. player self = Some h \<and> close_player pf h = Some x)))) \<and>
   (player self = Some h \<and> close_player pf h = None \<and> image' self = Some f \<and> wait self \<le> now \<and>
    display pf self w = Inl e \<longrightarrow>
      play pf now got self w =
        (RetNone, fst (stop self w), (snd (stop self w))\<lparr>logged := logged w @ [(ERROR, Raised e)]\<rparr>)) \<and>
   (player self = Some h \<and> close_player pf h = None \<and> image' self = None \<and> d \<le> 0 \<and>
    display pf (self\<lparr>image' := Some f\<rparr>) w = Inl e \<longrightarrow>
      play pf now (Frame f d) self w =
        (RetNone, fst (stop self w), (snd (stop self w))\<lparr>logged := logged w @ [(ERROR, Raised e)]\<rparr>)) \<and>
   (player self \<noteq> None \<and> image' self = None \<longrightarrow>
      play pf now (Fails e) self w = (Uncaught e, self, w))"
proof -
  have a: "(case play pf now got self w of (r, s', w') \<Rightarrow>
      (r = RetTrue \<longrightarrow> (\<exists>pic x y. screen w' = blit pic (x, y) (screen w)) \<and> logged w' = logged w))"
  proof (cases "fst (play pf now got self w) = RetTrue")
    case True
    from play_RetTrue[OF True] obtain pic x y where
      e: "play pf now got self w =
          (RetTrue, self\<lparr>image' := None\<rparr>, w\<lparr>screen := blit pic (x, y) (screen w)\<rparr>)"
      by blast
    show ?thesis unfolding e by (simp; blast)
  next
    case False
    then show ?thesis by (auto split: prod.splits)
  qed
  have b: "(case play pf now got self w of (r, s', w') \<Rightarrow>
      (logged w' = logged w \<or>
       (\<exists>e h. logged w' = logged w @ [(ERROR, Raised e)] \<and> player self = Some h \<and>
              screen w' = screen w \<and>
              (r = RetNone \<and> close_player pf h = None \<and> has_finished s' \<and> player s' = None \<and>
               surface s' = None \<and> image' s' = None \<and>
               closed_players w' = closed_players w @ [h] \<or>
               (\<exists>e'. r = Uncaught e' \<and> close_player pf h = Some e')))))"
    by (auto simp: play_def Let_def stop_call_def stop_def display_it_def log_to_def has_finished_def
          split: if_splits option.splits get_frame_result.splits sum.splits dest!: display_Inr)
  have c: "(case play pf now got self w of (r, s', w') \<Rightarrow>
      (\<forall>x. r = Uncaught x \<longrightarrow>
         player s' = player self \<and> surface s' = surface self \<and> finished s' = finished self \<and>
         screen w' = screen w \<and> closed_players w' = closed_players w \<and>
         (got = Fails x \<or> (\<exists>fr. got = FrameNoDelay fr) \<or>
          (\<exists>h. player self = Some h \<and> close_player pf h = Some x))))"
    by (auto simp: play_def Let_def stop_call_def stop_def display_it_def log_to_def
          split: if_splits option.splits get_frame_result.splits sum.splits dest!: display_Inr)
  have d1: "player self = Some h \<and> close_player pf h = None \<and> image' self = Some f \<and> wait self \<le> now \<and>
    display pf self w = Inl e \<longrightarrow>
      play pf now got self w =
        (RetNone, fst (stop self w), (snd (stop self w))\<lparr>logged := logged w @ [(ERROR, Raised e)]\<rparr>)"
    by (auto simp: play_stored_due display_it_Inl)
  have d2: "player self = Some h \<and> close_player pf h = None \<and> image' self = None \<and> d \<le> 0 \<and>
    display pf (self\<lparr>image' := Some f\<rparr>) w = Inl e \<longrightarrow>
      play pf now (Frame f d) self w =
        (RetNone, fst (stop self w), (snd (stop self w))\<lparr>logged := logged w @ [(ERROR, Raised e)]\<rparr>)"
    by (auto simp: play_fetch_now display_it_Inl[where h = h] stop_def)
  have g: "player self \<noteq> None \<and> image' self = None \<longrightarrow>
      play pf now (Fails e) self w = (Uncaught e, self, w)"
    by (simp add: play_fails)
  obtain r0 s0 w0 where p: "play pf now got self w = (r0, s0, w0)"
    by (cases "play pf now got self w")
  have abc: "(case play pf now got self w of (r, s', w') \<Rightarrow>
      (r = RetTrue \<longrightarrow> (\<exists>pic x y. screen w' = blit pic (x, y) (screen w)) \<and> logged w' = logged w) \<and>
      (logged w' = logged w \<or>
       (\<exists>e h. logged w' = logged w @ [(ERROR, Raised e)] \<and> player self = Some h \<and>
              screen w' = screen w \<and>
              (r = RetNone \<and> close_player pf h = None \<and> has_finished s' \<and> player s' = None \<and>
               surface s' = None \<and> image' s' = None \<and>
               closed_players w' = closed_players w @ [h] \<or>
               (\<exists>e'. r = Uncaught e' \<and> close_player pf h = Some e')))) \<and>
      (\<forall>x. r = Uncaught x \<longrightarrow>
         player s' = player self \<and> surface s' = surface self \<and> finished s' = finished self \<and>
         screen w' = screen w \<and> closed_players w' = closed_players w \<and>
         (got = Fails x \<or> (\<exists>fr. got = FrameNoDelay fr) \<or>
          (\<exists>h. player self = Some h \<and> close_player pf h = Some x))))"
    unfolding p prod.case
    using a[unfolded p prod.case] b[unfolded p prod.case] c[unfolded p prod.case]
    by (intro conjI)
  from abc d1 d2 g show ?thesis by (intro conjI)
qed

theorem play_catches_display_errors_only_witness:
  "play ex_pf 6 (Frame 0 0) ex_player (ex_world []) =
     (RetNone,
      \<lparr>player = None, surface = None, image' = None, wait = 0, finished = True\<rparr>,
      (ex_world [])\<lparr>logged := [(ERROR, Raised (RenderError ''bad frame''))],
                     closed_players := [0]\<rparr>) \<and>
   play ex_pf 6 (Frame 7 0) ex_player (ex_world []) =
     (RetTrue, ex_player,
      (ex_world [])\<lparr>screen := \<lparr>get_size = (1600, 900),
            drawn = [Blit \<lparr>pic_size = (1600, 900), pic_id = 7\<rparr> (0, 0)]\<rparr>\<rparr>) \<and>
   play ex_pf 6 (Fails (DecoderError ''read'')) ex_player (ex_world []) =
     (Uncaught (DecoderError ''read''), ex_player, ex_world [])"
  using play_catches_display_errors_only
          [where pf = ex_pf and now = 6 and got = "Frame 0 0" and self = ex_player
             and w = "ex_world []" and f = 0 and e = "RenderError ''bad frame''" and d = 0
             and h = 0]
        play_catches_display_errors_only
          [where pf = ex_pf and now = 6 and got = "Frame 7 0" and self = ex_player
             and w = "ex_world []" and f = 7 and e = "DecoderError ''read''" and d = 0
             and h = 0]
  by (simp add: ex_player_def play_def display_it_def display_def ex_pf_def ex_world_def
        centerblit_def blit_def stop_call_def stop_def log_to_def)

text \<open>
  When \<open>close_player\<close> raises in the handler, the error of the display code is logged
  and the exception of \<open>close_player\<close> leaves \<open>play\<close> with the session not finished.
\<close>

lemma ex_close_player_raises_in_handler:
  "play ex_pf_closing_fails 6 (Frame 0 0) ex_player (ex_world []) =
     (Uncaught (DecoderError ''close''), ex_player\<lparr>image' := Some 0\<rparr>,
      (ex_world [])\<lparr>logged := [(ERROR, Raised (RenderError ''bad frame''))]\<rparr>)"
  by (simp add: ex_player_def play_def display_it_def display_def ex_pf_closing_fails_def ex_pf_def
        ex_world_def stop_call_def log_to_def)

lemma ex_play_due:
  "play ex_pf 6 NoFrame (ex_player\<lparr>image' := Some 7, wait := 5\<rparr>) (ex_world []) =
     (RetTrue, ex_player\<lparr>wait := 5\<rparr>,
      (ex_world [])\<lparr>screen := \<lparr>get_size = (1600, 900),
            drawn = [Blit \<lparr>pic_size = (1600, 900), pic_id = 7\<rparr> (0, 0)]\<rparr>\<rparr>)"
  by (simp add: play_def display_it_def display_def ex_pf_def ex_player_def ex_world_def centerblit_def blit_def)

text \<open>
  Claim C4, as stated, fails: after a successful display the deadline \<open>wait\<close> still has
  the value it had, here 5, not the cleared value 0 that \<open>__init__\<close> and \<open>stop\<close> give it.
\<close>

theorem successful_display_keeps_deadline:
  "fst (play ex_pf 6 NoFrame (ex_player\<lparr>image' := Some 7, wait := 5\<rparr>) (ex_world [])) = RetTrue \<and>
   wait (fst (snd (play ex_pf 6 NoFrame (ex_player\<lparr>image' := Some 7, wait := 5\<rparr>) (ex_world [])))) \<noteq> 0"
  unfolding ex_play_due by simp

text \<open>
  Claim C4, amended. A call of \<open>play\<close> that returns \<open>True\<close> leaves the session as it
  was but for the stored frame, which is cleared: decoder handle, surface reference,
  finished flag and the deadline \<open>wait\<close> are unchanged; the world is as it was but for
  one picture blitted on the screen.
\<close>

theorem successful_display_clears_frame_only:
  assumes "fst (play pf now got self w) = RetTrue"
  shows "(case play pf now got self w of (r, s', w') \<Rightarrow>
           r = RetTrue \<and> image' s' = None \<and> player s' = player self \<and> surface s' = surface self \<and>
           finished s' = finished self \<and> wait s' = wait self \<and> s' = self\<lparr>image' := None\<rparr> \<and>
           (\<exists>pic x y. w' = w\<lparr>screen := blit pic (x, y) (screen w)\<rparr>))"
proof -
  from play_RetTrue[OF assms] obtain pic x y where
    e: "play pf now got self w =
          (RetTrue, self\<lparr>image' := None\<rparr>, w\<lparr>screen := blit pic (x, y) (screen w)\<rparr>)"
    by blast
  show ?thesis unfolding e by (simp; blast)
qed


theorem successful_display_clears_frame_only_witness:
  "fst (play ex_pf 6 NoFrame (ex_player\<lparr>image' := Some 7, wait := 5\<rparr>) (ex_world [])) = RetTrue \<and>
   (case play ex_pf 6 NoFrame (ex_player\<lparr>image' := Some 7, wait := 5\<rparr>) (ex_world []) of (r, s', w') \<Rightarrow>
      r = RetTrue \<and> image' s' = None \<and> wait s' = 5 \<and> player s' = Some 0 \<and> \<not> finished s')"
  using successful_display_clears_frame_only[of ex_pf 6 NoFrame "ex_player\<lparr>image' := Some 7, wait := 5\<rparr>" "ex_world []"]
  unfolding ex_play_due by (simp add: ex_player_def)

text \<open>
  The deadline left behind is never read: with no frame stored, neither what \<open>play\<close>
  returns nor the world it leaves depends on \<open>wait\<close>.
\<close>

lemma stale_wait_not_consulted:
  "image' self = None \<Longrightarrow>
   fst (play pf now got (self\<lparr>wait := x\<rparr>) w) = fst (play pf now got self w) \<and>
   snd (snd (play pf now got (self\<lparr>wait := x\<rparr>) w)) = snd (snd (play pf now got self w))"
  by (auto simp: play_def Let_def stop_call_def stop_def display_it_def display_def log_to_def
        split: if_splits option.splits get_frame_result.splits sum.splits surface_ref.splits)


section \<open>Selectors: the choice loop\<close>

lemma choose_other_differs:
  "choose_other seq l rs = Some (x, rs') \<Longrightarrow> Some x \<noteq> l"
  by (induction rs) (auto simp: Let_def split: if_splits)

lemma choose_other_first:
  "l \<noteq> Some (choice seq r) \<Longrightarrow> choose_other seq l (r # rs) = Some (choice seq r, rs)"
  by (auto simp: Let_def)

lemma choose_other_returns:
  "\<exists>r \<in> set rs. Some (choice seq r) \<noteq> l \<Longrightarrow> \<exists>x rs'. choose_other seq l rs = Some (x, rs')"
  by (induction rs) (auto simp: Let_def)

lemma choose_other_mem:
  "seq \<noteq> [] \<Longrightarrow> choose_other seq l rs = Some (x, rs') \<Longrightarrow> x \<in> set seq"
  by (induction rs) (auto simp: Let_def choice_def split: if_splits)

lemma random_background_never_repeats:
  assumes "backgrounds opts fs = Inr bgs" "2 \<le> length bgs"
    and "random_background opts fs pf w = Some (None, w')"
  shows "current_background w' \<noteq> current_background w \<and>
         (\<exists>bg. current_background w' = Some bg \<and> bg \<in> set bgs)"
proof -
  from assms(2) have ne: "bgs \<noteq> []" "length bgs \<noteq> 1" by auto
  from assms(3) ne obtain bg rs where
    c: "choose_other bgs (current_background w) (rng w) = Some (bg, rs)"
    by (auto simp: random_background_def assms(1) split: option.splits)
  from assms(3) ne c have "current_background w' = Some bg"
    by (auto simp: random_background_def assms(1) Let_def split: sum.splits)
  with choose_other_differs[OF c] choose_other_mem[OF ne(1) c] show ?thesis by auto
qed

lemma path_join_longer: "a \<noteq> [] \<Longrightarrow> take 1 b \<noteq> ''/'' \<Longrightarrow> path_join a b \<noteq> b"
proof -
  assume "a \<noteq> []" "take 1 b \<noteq> ''/''"
  then have "length (path_join a b) > length b"
    by (auto simp: path_join_def)
  then show ?thesis by auto
qed

lemma ex_catalog_one: "music_catalog ex_opts ex_fs_one = [(''a.mp4'', ''/d/music/a.mp4'')]"
  by code_simp

lemma ex_backgrounds_one: "backgrounds ex_opts ex_fs_one = Inr [''/d/backgrounds/x.png'']"
  by code_simp

lemma ex_catalog_nothing: "music_catalog ex_opts ex_fs_nothing = []"
  by code_simp

lemma ex_catalog_two: "music_catalog ex_opts ex_fs_two = [(''a.mp4'', ''/d/music/a.mp4''), (''b.mp4'', ''/d/music/b.mp4'')]"
  by code_simp

text \<open>
  When \<open>_last_music\<close> is none of the file names of the catalog, as a full path never
  is (lemma \<open>path_join_longer\<close>), the loop of \<open>random_music\<close> accepts its first draw.
\<close>

lemma random_music_accepts_first_draw:
  assumes "2 \<le> length (music_catalog opts fs)"
    and "\<forall>k \<in> fst ` set (music_catalog opts fs). last_music w \<noteq> Some k"
    and "rng w = r # rs"
  shows "\<exists>p. map_of (music_catalog opts fs) (choice (map fst (music_catalog opts fs)) r) = Some p \<and>
           random_music opts fs w =
             Some (Inr p, (log_to DEBUG (MusicFound (length (music_catalog opts fs))) w)
                            \<lparr>rng := rs, last_music := Some p\<rparr>)"
proof -
  let ?m = "music_catalog opts fs"
  let ?v = "choice (map fst ?m) r"
  from assms(1) have ne: "?m \<noteq> []" "length ?m \<noteq> 1" by auto
  have "?v \<in> set (map fst ?m)"
    unfolding choice_def using ne(1) by (intro nth_mem) simp
  then have v: "?v \<in> fst ` set ?m" by simp
  then obtain p where p: "map_of ?m ?v = Some p"
    by (cases "map_of ?m ?v") (auto simp: map_of_eq_None_iff)
  have c: "choose_other (map fst ?m) (last_music w) (r # rs) = Some (?v, rs)"
    using assms(2) v by (intro choose_other_first) auto
  show ?thesis
    using ne p c assms(3) by (simp add: random_music_def Let_def log_to_def)
qed

text \<open>
  Claim C5. Consecutive selections can be equal for \<open>random_music\<close>: with two music
  files and a generator that yields index 0 twice, two calls in a row return the same
  path. The loop compares the file name drawn with \<open>_last_music\<close>, which holds a full
  path, so every first draw is accepted. \<open>random_background\<close> compares a path with a
  path and does not repeat (lemma \<open>random_background_never_repeats\<close>).
\<close>

theorem random_music_repeats_previous_choice:
  "random_music ex_opts ex_fs_two (ex_world [0, 0]) =
     Some (Inr ''/d/music/a.mp4'',
           (ex_world [0])\<lparr>logged := [(DEBUG, MusicFound 2)], last_music := Some ''/d/music/a.mp4''\<rparr>) \<and>
   random_music ex_opts ex_fs_two
       ((ex_world [0])\<lparr>logged := [(DEBUG, MusicFound 2)], last_music := Some ''/d/music/a.mp4''\<rparr>) =
     Some (Inr ''/d/music/a.mp4'',
           (ex_world [])\<lparr>logged := [(DEBUG, MusicFound 2), (DEBUG, MusicFound 2)],
                          last_music := Some ''/d/music/a.mp4''\<rparr>)"
  by (simp add: random_music_def ex_catalog_two ex_world_def log_to_def choice_def)

text \<open>
  Claim C6. With a music catalog of exactly one entry \<open>random_music\<close> returns that
  entry's path, and with exactly one background \<open>random_background\<close> draws that one and
  remembers it (or raises what loading it raised), whatever the globals and the random
  generator hold.
\<close>

theorem single_entry_is_always_selected:
  "(music_catalog opts fs = [(k, p)] \<longrightarrow>
      random_music opts fs w =
        Some (Inr p, (log_to DEBUG (MusicFound 1) w)\<lparr>last_music := Some p\<rparr>)) \<and>
   (backgrounds opts fs = Inr [b] \<longrightarrow>
      random_background opts fs pf w =
        Some (case load_image pf b (get_size (screen w)) of
                Inl e \<Rightarrow> (Some e, w\<lparr>screen := fill BG_COLOR (screen w)\<rparr>)
              | Inr img \<Rightarrow>
                  (None, w\<lparr>screen := centerblit img (fill BG_COLOR (screen w)),
                           current_background := Some b\<rparr>)))"
  by (auto simp: random_music_def random_background_def Let_def log_to_def fill_def split: sum.splits)

theorem single_entry_is_always_selected_witness:
  "random_music ex_opts ex_fs_one ((ex_world [])\<lparr>last_music := Some ''/d/music/a.mp4''\<rparr>) =
     Some (Inr ''/d/music/a.mp4'',
           (ex_world [])\<lparr>logged := [(DEBUG, MusicFound 1)], last_music := Some ''/d/music/a.mp4''\<rparr>) \<and>
   random_background ex_opts ex_fs_one ex_pf
       ((ex_world [])\<lparr>current_background := Some ''/d/backgrounds/x.png''\<rparr>) =
     Some (None,
           (ex_world [])\<lparr>screen := \<lparr>get_size = (1600, 900),
                drawn = [Fill (0, 0, 0, 255), Blit \<lparr>pic_size = (1600, 900), pic_id = 0\<rparr> (0, 0)]\<rparr>,
              current_background := Some ''/d/backgrounds/x.png''\<rparr>)"
  using single_entry_is_always_selected[of ex_opts ex_fs_one "''a.mp4''" "''/d/music/a.mp4''"
             "(ex_world [])\<lparr>last_music := Some ''/d/music/a.mp4''\<rparr>" "''/d/backgrounds/x.png''" ex_pf]
        single_entry_is_always_selected[of ex_opts ex_fs_one "''a.mp4''" "''/d/music/a.mp4''"
             "(ex_world [])\<lparr>current_background := Some ''/d/backgrounds/x.png''\<rparr>" "''/d/backgrounds/x.png''" ex_pf]
  by (simp add: ex_catalog_one ex_backgrounds_one ex_world_def log_to_def load_image_def ex_pf_def
        fill_def centerblit_def blit_def BG_COLOR_def)

section \<open>Background Selector: no backgrounds\<close>

lemma random_background_noop_without_images: "backgrounds opts fs = Inr [] \<Longrightarrow> random_background opts fs pf w = Some (None, w)"
  by (simp add: random_background_def)

lemma random_background_raises_without_directory: "fs (bgdir opts) = None \<Longrightarrow>
   random_background opts fs pf w = Some (Some (FileNotFoundError (bgdir opts)), w)"
  by (simp add: random_background_def backgrounds_def listdir_def)

text \<open>
  Claim C8. With no backgrounds directory the call raises: \<open>os.listdir\<close> is called
  with no \<open>os.path.isdir\<close> guard, unlike in \<open>random_music\<close>. With a directory that
  holds no recognized image the call is a no-op (lemma
  \<open>random_background_noop_without_images\<close>).
\<close>

theorem random_background_missing_directory: "random_background ex_opts ex_fs_nothing ex_pf (ex_world []) =
   Some (Some (FileNotFoundError ''/d/backgrounds''), ex_world [])"
  by (simp add: random_background_def backgrounds_def listdir_def ex_fs_nothing_def bgdir_def ex_opts_def path_join_def)

section \<open>Music Selector: the catalog and the error\<close>

lemma map_of_fold_update:
  "map_of (fold (\<lambda>f d. AList.update f (g f) d) xs d0) k =
     (if k \<in> set xs then Some (g k) else map_of d0 k)"
  by (induction xs arbitrary: d0) (auto simp: update_conv')

lemma map_of_music_in:
  "map_of (music_in fs mdir) f =
     (if f \<in> set (entries fs mdir) \<and> is_music f then Some (path_join mdir f) else None)"
  by (simp add: music_in_def map_of_fold_update)

lemma distinct_fold_update:
  "distinct (map fst d0) \<Longrightarrow>
   distinct (map fst (fold (\<lambda>f d. AList.update f (g f) d) xs d0))"
  by (induction xs arbitrary: d0) (auto simp: distinct_update)

lemma distinct_music_in: "distinct (map fst (music_in fs mdir))"
  by (simp add: music_in_def distinct_fold_update)

lemma map_of_dict_update:
  "distinct (map fst d) \<Longrightarrow> map_of (dict_update music d) = map_of music ++ map_of d"
  unfolding dict_update_def
proof (induction d arbitrary: music)
  case Nil
  show ?case by simp
next
  case (Cons a d)
  obtain k v where a: "a = (k, v)" by (cases a)
  from Cons.prems a have k: "map_of d k = None" and dd: "distinct (map fst d)"
    by (auto simp: map_of_eq_None_iff)
  show ?case
    using k by (auto simp: a Cons.IH[OF dd] update_conv' fun_eq_iff map_add_def split: option.splits)
qed

lemma map_of_music_catalog:
  "map_of (music_catalog opts fs) f =
     (if f \<in> set (entries fs (MUSICDIR opts)) \<and> is_music f
      then Some (path_join (MUSICDIR opts) f)
      else if f \<in> set (entries fs (path_join (USERDATA opts) ''music'')) \<and> is_music f
      then Some (path_join (path_join (USERDATA opts) ''music'') f)
      else if f \<in> set (entries fs (path_join (DATADIR opts) ''music'')) \<and> is_music f
      then Some (path_join (path_join (DATADIR opts) ''music'') f)
      else None)"
  by (simp add: music_catalog_def music_dirs_def map_of_dict_update distinct_music_in
        map_of_music_in map_add_def)

text \<open>
  Claim C7. \<open>random_music\<close> raises \<open>FileNotFoundError\<close> exactly when the catalog is
  empty; in the catalog a file name stands for its path in the last of the three
  directories that holds it as a recognized file; and on Enter with no player and an
  empty catalog the main loop logs the error and keeps its state, the player still
  absent, in the event handler and over the whole pass of the loop.
\<close>

theorem not_found_iff_catalog_empty:
  "((\<exists>m w'. random_music opts fs w = Some (Inl (FileNotFoundError m), w')) \<longleftrightarrow>
      music_catalog opts fs = []) \<and>
   map_of (music_catalog opts fs) f =
     (if f \<in> set (entries fs (MUSICDIR opts)) \<and> is_music f
      then Some (path_join (MUSICDIR opts) f)
      else if f \<in> set (entries fs (path_join (USERDATA opts) ''music'')) \<and> is_music f
      then Some (path_join (path_join (USERDATA opts) ''music'') f)
      else if f \<in> set (entries fs (path_join (DATADIR opts) ''music'')) \<and> is_music f
      then Some (path_join (path_join (DATADIR opts) ''music'') f)
      else None) \<and>
   (loop_player st = None \<and> music_catalog opts fs = [] \<longrightarrow>
      handle_event opts fs pf (KEYUP K_RETURN) st w =
        Some (None, st,
              w\<lparr>logged := logged w @ [(DEBUG, MusicFound 0),
                                      (ERROR, Raised (FileNotFoundError ''No music found!''))]\<rparr>) \<and>
      main_pass opts fs pf [KEYUP K_RETURN] now got st w =
        Some (None, st\<lparr>loop_dirty := False\<rparr>,
              if loop_dirty st
              then w\<lparr>logged := logged w @ [(DEBUG, MusicFound 0),
                                      (ERROR, Raised (FileNotFoundError ''No music found!''))],
                     updates := updates w + 1\<rparr>
              else w\<lparr>logged := logged w @ [(DEBUG, MusicFound 0),
                                      (ERROR, Raised (FileNotFoundError ''No music found!''))]\<rparr>))"
proof -
  have a: "(\<exists>m w'. random_music opts fs w = Some (Inl (FileNotFoundError m), w')) \<longleftrightarrow>
      music_catalog opts fs = []"
    by (auto simp: random_music_def Let_def split: if_splits option.splits prod.splits)
  have h: "loop_player st = None \<and> music_catalog opts fs = [] \<longrightarrow>
      handle_event opts fs pf (KEYUP K_RETURN) st w =
        Some (None, st,
              w\<lparr>logged := logged w @ [(DEBUG, MusicFound 0),
                                      (ERROR, Raised (FileNotFoundError ''No music found!''))]\<rparr>)"
    by (auto simp: handle_event_def random_music_def log_to_def)
  have m: "loop_player st = None \<and> music_catalog opts fs = [] \<longrightarrow>
      main_pass opts fs pf [KEYUP K_RETURN] now got st w =
        Some (None, st\<lparr>loop_dirty := False\<rparr>,
              if loop_dirty st
              then w\<lparr>logged := logged w @ [(DEBUG, MusicFound 0),
                                      (ERROR, Raised (FileNotFoundError ''No music found!''))],
                     updates := updates w + 1\<rparr>
              else w\<lparr>logged := logged w @ [(DEBUG, MusicFound 0),
                                      (ERROR, Raised (FileNotFoundError ''No music found!''))]\<rparr>)"
    using h by (auto simp: main_pass_def)
  from a h m map_of_music_catalog[of opts fs f] show ?thesis by simp
qed

theorem not_found_iff_catalog_empty_witness:
  "music_catalog ex_opts ex_fs_nothing = [] \<and>
   random_music ex_opts ex_fs_nothing (ex_world []) =
     Some (Inl (FileNotFoundError ''No music found!''),
           (ex_world [])\<lparr>logged := [(DEBUG, MusicFound 0)]\<rparr>) \<and>
   handle_event ex_opts ex_fs_nothing ex_pf (KEYUP K_RETURN) ex_idle (ex_world []) =
     Some (None, ex_idle,
           (ex_world [])\<lparr>logged := [(DEBUG, MusicFound 0),
                                    (ERROR, Raised (FileNotFoundError ''No music found!''))]\<rparr>)"
  using not_found_iff_catalog_empty[of ex_opts ex_fs_nothing "ex_world []" "''a.mp4''" ex_idle ex_pf 0 NoFrame]
  by (simp add: ex_catalog_nothing ex_idle_def ex_world_def random_music_def log_to_def)

lemma music_catalog_empty_iff:
  "music_catalog opts fs = [] \<longleftrightarrow> (\<forall>d \<in> set (music_dirs opts). filter is_music (entries fs d) = [])"
proof -
  have "music_catalog opts fs = [] \<longleftrightarrow> (\<forall>f. map_of (music_catalog opts fs) f = None)"
    by (metis map_of_eq_empty_iff)
  also have "\<dots> \<longleftrightarrow> (\<forall>d \<in> set (music_dirs opts). filter is_music (entries fs d) = [])"
    unfolding map_of_music_catalog by (auto simp: music_dirs_def filter_empty_conv)
  finally show ?thesis .
qed

section \<open>Music Selector: the selection memory\<close>

lemma ex_random_music_second:
  "random_music ex_opts ex_fs_two (ex_world [1]) =
     Some (Inr ''/d/music/b.mp4'',
           (ex_world [])\<lparr>logged := [(DEBUG, MusicFound 2)], last_music := Some ''/d/music/b.mp4''\<rparr>)"
  by code_simp

text \<open>
  Claim C10. When \<open>random_music\<close> returns, the global \<open>_last_music\<close> holds what it
  returned, and that is the full path the catalog has for a file name: the name of a
  recognized file of one of the music directories, joined to that directory.
\<close>

theorem random_music_remembers_full_path:
  assumes "random_music opts fs w = Some (Inr p, w')"
  shows "last_music w' = Some p \<and>
         (\<exists>k d. map_of (music_catalog opts fs) k = Some p \<and> d \<in> set (music_dirs opts) \<and>
                k \<in> set (entries fs d) \<and> is_music k \<and> p = path_join d k)"
proof -
  from assms obtain k where k: "map_of (music_catalog opts fs) k = Some p"
    and l: "last_music w' = Some p"
    by (auto simp: random_music_def Let_def split: if_splits option.splits prod.splits)
  from k have "\<exists>d. d \<in> set (music_dirs opts) \<and> k \<in> set (entries fs d) \<and> is_music k \<and>
      p = path_join d k"
    unfolding map_of_music_catalog by (auto simp: music_dirs_def split: if_splits)
  with k l show ?thesis by blast
qed

theorem random_music_remembers_full_path_witness:
  "random_music ex_opts ex_fs_two (ex_world [1]) =
     Some (Inr ''/d/music/b.mp4'',
           (ex_world [])\<lparr>logged := [(DEBUG, MusicFound 2)], last_music := Some ''/d/music/b.mp4''\<rparr>) \<and>
   last_music ((ex_world [])\<lparr>logged := [(DEBUG, MusicFound 2)],
                              last_music := Some ''/d/music/b.mp4''\<rparr>) = Some ''/d/music/b.mp4'' \<and>
   map_of (music_catalog ex_opts ex_fs_two) ''b.mp4'' = Some ''/d/music/b.mp4''"
  using random_music_remembers_full_path[OF ex_random_music_second] ex_random_music_second
  by (simp add: ex_catalog_two)

section \<open>The extension of a file name\<close>

lemma rfind_from_notin: "c \<notin> set p \<Longrightarrow> rfind_from p c i found = found"
  by (induction p arbitrary: i found) auto

lemma rfind_from_last:
  "c \<notin> set ys \<Longrightarrow> rfind_from (xs @ c # ys) c i found = i + int (length xs)"
  by (induction xs arbitrary: i found) (auto simp: rfind_from_notin)

lemma rfind_notin: "c \<notin> set p \<Longrightarrow> rfind p c = - 1"
  by (simp add: rfind_def rfind_from_notin)

lemma rfind_last: "c \<notin> set ys \<Longrightarrow> rfind (xs @ c # ys) c = int (length xs)"
  by (simp add: rfind_def rfind_from_last)

lemma take1_drop: "i < length p \<Longrightarrow> take 1 (drop i p) = [p ! i]"
  by (metis Cons_nth_drop_Suc One_nat_def take_Suc_Cons take_0)

lemma splitext_loop_nat:
  "i \<le> dot \<Longrightarrow> dot < length p \<Longrightarrow>
   splitext_loop p (int dot) (int i) =
     (if \<exists>j. i \<le> j \<and> j < dot \<and> p ! j \<noteq> CHR ''.'' then (take dot p, drop dot p) else (p, []))"
proof (induction "dot - i" arbitrary: i)
  case 0
  then have "i = dot" by simp
  then show ?case by (subst splitext_loop.simps) auto
next
  case (Suc n)
  then have lt: "i < dot" and il: "i < length p" by auto
  note t = take1_drop[OF il]
  show ?case
  proof (cases "p ! i = CHR ''.''")
    case False
    with lt have "\<exists>j. i \<le> j \<and> j < dot \<and> p ! j \<noteq> CHR ''.''" by auto
    with False lt t show ?thesis by (subst splitext_loop.simps) auto
  next
    case True
    have ih: "splitext_loop p (int dot) (int (Suc i)) =
        (if \<exists>j. Suc i \<le> j \<and> j < dot \<and> p ! j \<noteq> CHR ''.'' then (take dot p, drop dot p) else (p, []))"
      using Suc by (intro Suc.hyps(1)) auto
    have eq: "(\<exists>j. i \<le> j \<and> j < dot \<and> p ! j \<noteq> CHR ''.'') = (\<exists>j. Suc i \<le> j \<and> j < dot \<and> p ! j \<noteq> CHR ''.'')"
      using True by (metis Suc_leI le_neq_implies_less Suc_leD)
    have "splitext_loop p (int dot) (int i) = splitext_loop p (int dot) (int i + 1)"
      using True lt t by (subst splitext_loop.simps) auto
    also have "int i + 1 = int (Suc i)" by simp
    finally show ?thesis using ih eq by simp
  qed
qed

lemma splitext_no_dot:
  "CHR ''/'' \<notin> set f \<Longrightarrow> CHR ''.'' \<notin> set f \<Longrightarrow> splitext f = (f, [])"
  by (simp add: splitext_def rfind_notin)

lemma splitext_last_dot:
  assumes "CHR ''/'' \<notin> set xs" "CHR ''/'' \<notin> set ys" "CHR ''.'' \<notin> set ys"
  shows "splitext (xs @ CHR ''.'' # ys) =
           (if \<exists>c \<in> set xs. c \<noteq> CHR ''.'' then (xs, CHR ''.'' # ys) else (xs @ CHR ''.'' # ys, []))"
proof -
  let ?p = "xs @ CHR ''.'' # ys"
  have sep: "rfind ?p (CHR ''/'') = - 1" using assms by (intro rfind_notin) auto
  have dot: "rfind ?p (CHR ''.'') = int (length xs)" using assms by (intro rfind_last) auto
  have loop: "splitext_loop ?p (int (length xs)) (int 0) =
      (if \<exists>j. 0 \<le> j \<and> j < length xs \<and> ?p ! j \<noteq> CHR ''.'' then (take (length xs) ?p, drop (length xs) ?p) else (?p, []))"
    by (rule splitext_loop_nat) simp_all
  have ex: "(\<exists>j. 0 \<le> j \<and> j < length xs \<and> ?p ! j \<noteq> CHR ''.'') = (\<exists>c \<in> set xs. c \<noteq> CHR ''.'')"
  proof
    assume "\<exists>j. 0 \<le> j \<and> j < length xs \<and> ?p ! j \<noteq> CHR ''.''"
    then obtain j where j: "j < length xs" "?p ! j \<noteq> CHR ''.''" by blast
    then have "xs ! j \<in> set xs" "xs ! j \<noteq> CHR ''.''" by (simp_all add: nth_append)
    then show "\<exists>c \<in> set xs. c \<noteq> CHR ''.''" by blast
  next
    assume "\<exists>c \<in> set xs. c \<noteq> CHR ''.''"
    then obtain c where c: "c \<in> set xs" "c \<noteq> CHR ''.''" by blast
    then obtain j where j: "j < length xs" "xs ! j = c" by (auto simp: in_set_conv_nth)
    with c have "0 \<le> j \<and> j < length xs \<and> ?p ! j \<noteq> CHR ''.''" by (simp add: nth_append)
    then show "\<exists>j. 0 \<le> j \<and> j < length xs \<and> ?p ! j \<noteq> CHR ''.''" by blast
  qed
  show ?thesis
    using loop unfolding ex by (simp add: splitext_def sep dot)
qed

lemma lower_char_dot_eval: "lower_char (CHR ''.'') = CHR ''.''"
  by (simp add: lower_char_def)

lemma lower_char_dot: "lower_char c = CHR ''.'' \<Longrightarrow> c = CHR ''.''"
  by (simp add: lower_char_def split: if_splits)

lemma lower_mp4_no_dot:
  assumes "lower ys = ''mp4''"
  shows "CHR ''.'' \<notin> set ys"
proof
  assume "CHR ''.'' \<in> set ys"
  then have "lower_char (CHR ''.'') \<in> set (lower ys)" by (simp add: lower_def)
  then show False by (simp add: assms lower_char_dot_eval)
qed

lemma lower_append: "lower (xs @ ys) = lower xs @ lower ys"
  by (simp add: lower_def)

lemma lower_length: "length (lower xs) = length xs"
  by (simp add: lower_def)

lemma endswith_mp4:
  "endswith s ''.mp4'' \<longleftrightarrow> 4 \<le> length s \<and> drop (length s - 4) s = ''.mp4''"
proof -
  have len4: "length ''.mp4'' = 4" by simp
  show ?thesis by (simp only: endswith_def len4)
qed

lemma extension_last_dot:
  assumes "CHR ''/'' \<notin> set xs" "CHR ''/'' \<notin> set ys" "CHR ''.'' \<notin> set ys"
  shows "extension (xs @ CHR ''.'' # ys) = (if \<exists>c \<in> set xs. c \<noteq> CHR ''.'' then lower ys else [])"
  by (simp add: extension_def splitext_last_dot[OF assms] lower_def)

text \<open>
  Claim C9, as stated, fails: the name \<open>.mp4\<close> ends with \<open>.mp4\<close> and is not
  recognized, since \<open>os.path.splitext\<close> takes the leading dots of a name as part of
  its stem.
\<close>

theorem hidden_file_not_recognized: "spec_recognized_video ''.mp4'' \<and> \<not> is_music ''.mp4''"
  by (simp add: spec_recognized_video_def endswith_def is_music_def extension_def splitext_def
        rfind_def lower_def lower_char_def splitext_loop.simps)

text \<open>
  Claim C9, amended. A file name (no \<open>/\<close> in it) is recognized as music if and only if
  it ends with \<open>.mp4\<close>, matched without regard to case, and what stands before that
  suffix has a character other than a dot.
\<close>

theorem is_music_iff_suffix_and_stem:
  assumes "CHR ''/'' \<notin> set f"
  shows "is_music f \<longleftrightarrow>
           spec_recognized_video f \<and> (\<exists>c \<in> set (take (length f - 4) f). c \<noteq> CHR ''.'')"
proof
  assume m: "is_music f"
  then have e: "extension f = ''mp4''" by (simp add: is_music_def)
  have "CHR ''.'' \<in> set f"
  proof (rule ccontr)
    assume "CHR ''.'' \<notin> set f"
    with assms have "splitext f = (f, [])" by (rule splitext_no_dot)
    with e show False by (simp add: extension_def lower_def)
  qed
  then obtain xs ys where f: "f = xs @ CHR ''.'' # ys" and nd: "CHR ''.'' \<notin> set ys"
    by (auto dest: split_list_last)
  from assms f have ns: "CHR ''/'' \<notin> set xs" "CHR ''/'' \<notin> set ys" by auto
  from e have x: "(\<exists>c \<in> set xs. c \<noteq> CHR ''.'')" and l: "lower ys = ''mp4''"
    unfolding f extension_last_dot[OF ns nd] by (auto split: if_splits)
  from l have len: "length ys = 3" using lower_length[of ys] by simp
  have "lower (CHR ''.'' # ys) = ''.mp4''"
    using l by (simp add: lower_def lower_char_dot_eval)
  then have "lower f = lower xs @ ''.mp4''"
    by (simp add: f lower_append)
  then have "spec_recognized_video f"
    using lower_length[of xs] by (simp add: spec_recognized_video_def endswith_mp4)
  moreover have "take (length f - 4) f = xs" by (simp add: f len)
  ultimately show "spec_recognized_video f \<and> (\<exists>c \<in> set (take (length f - 4) f). c \<noteq> CHR ''.'')"
    using x by simp
next
  assume a: "spec_recognized_video f \<and> (\<exists>c \<in> set (take (length f - 4) f). c \<noteq> CHR ''.'')"
  define xs where "xs = take (length f - 4) f"
  define zs where "zs = drop (length f - 4) f"
  have f: "f = xs @ zs" by (simp add: xs_def zs_def)
  from a have n: "4 \<le> length f" and d: "drop (length f - 4) (lower f) = ''.mp4''"
    by (auto simp: spec_recognized_video_def endswith_mp4 lower_length)
  from d have lz: "lower zs = ''.mp4''" by (simp add: zs_def lower_def drop_map)
  then obtain c ys where zs: "zs = c # ys" and c: "lower_char c = CHR ''.''" and l: "lower ys = ''mp4''"
    by (cases zs) (auto simp: lower_def)
  from c have c': "c = CHR ''.''" by (rule lower_char_dot)
  from l have nd: "CHR ''.'' \<notin> set ys" by (rule lower_mp4_no_dot)
  from assms f zs have ns: "CHR ''/'' \<notin> set xs" "CHR ''/'' \<notin> set ys" by auto
  from a have x: "\<exists>c \<in> set xs. c \<noteq> CHR ''.''" by (simp add: xs_def)
  have "extension f = ''mp4''"
    unfolding f zs c' extension_last_dot[OF ns nd] using x l by simp
  then show "is_music f" by (simp add: is_music_def)
qed

theorem is_music_iff_suffix_and_stem_witness:
  "CHR ''/'' \<notin> set ''A.MP4'' \<and> is_music ''A.MP4'' \<and> spec_recognized_video ''A.MP4'' \<and>
   \<not> is_music ''..mp4'' \<and> \<not> is_music ''a.mp3''"
  using is_music_iff_suffix_and_stem[of "''A.MP4''"] is_music_iff_suffix_and_stem[of "''..mp4''"] is_music_iff_suffix_and_stem[of "''a.mp3''"]
  by (simp add: spec_recognized_video_def endswith_def lower_def lower_char_def)

end
